theory Spec2Isabelle
  imports Main "HOL-Library.AList"
begin

section \<open>LTV service: validated value objects in front of a key-value store\<close>

text \<open>
  The repository holds two variants of one module, \<^verbatim>\<open>ltv_service.py\<close> and
  \<^verbatim>\<open>ltv_service_api.py\<close>. Definitions without a prefix embed \<^verbatim>\<open>ltv_service.py\<close>;
  where the text of \<^verbatim>\<open>ltv_service_api.py\<close> differs, its definition carries the prefix
  \<open>api_\<close>. Classes and functions whose bodies are the same in both files (the exceptions
  apart from the handler one, the phone policies, the three value objects,
  \<^verbatim>\<open>with_option\<close>, \<^verbatim>\<open>with_options\<close>, \<^verbatim>\<open>is_available\<close>, \<^verbatim>\<open>close\<close>) are embedded once.

  Python integers are \<open>int\<close>. A Python \<^verbatim>\<open>str\<close> is a \<open>string\<close>, each \<open>char\<close> standing for
  one code point in the range 0 to 255. A function that can raise returns \<open>error + 'a\<close>,
  with \<open>Inl\<close> the exception. A method that mutates \<^verbatim>\<open>self\<close>, and a function that talks to
  the store, returns its outcome paired with the state it leaves behind.
  Names that start with an underscore in the source start with \<open>priv_\<close> here.
  The calls to \<^verbatim>\<open>logging.error\<close> are not modelled.
\<close>

subsection \<open>Exceptions\<close>

text \<open>
  One constructor for each exception class the two files define or let escape.
  \<open>WrongCustomerID\<close> and \<open>WrongLTV\<close> carry the offending integer, from which the source
  formats the message. \<open>ClientHandlerUnavailable\<close> exists in \<^verbatim>\<open>ltv_service.py\<close> only and
  \<open>AerospikeClientUnavailable\<close> in \<^verbatim>\<open>ltv_service_api.py\<close> only. \<open>RecordNotFound\<close> is the
  store client's exception; \<open>AttributeError\<close>, \<open>AssertionError\<close> and \<open>TypeError\<close> are
  Python's own.
\<close>

datatype error =
    ClientOptionExists string
  | ClientConnectError
  | ClientHandlerUnavailable
  | AerospikeClientUnavailable
  | WrongNumberFormat string
  | WrongCustomerID int
  | WrongLTV int
  | RecordNotFound
  | AttributeError
  | AssertionError
  | TypeError

subsection \<open>Phone policies\<close>

text \<open>
  A policy object is used through its \<^verbatim>\<open>check\<close> method alone, so a policy is that
  method: a function from the phone string to the pair (valid, reason).
\<close>

type_synonym PhonePolicy = "string \<Rightarrow> bool \<times> string"

text \<open>The loop of \<^verbatim>\<open>PhonePolicyPipeline.check\<close> over the tuple of policies.\<close>

fun pipeline_check :: "PhonePolicy list \<Rightarrow> string \<Rightarrow> bool \<times> string" where
  "pipeline_check [] phone = (True, '''')"
| "pipeline_check (policy # policies) phone =
     (case policy phone of
        (result, error_message) \<Rightarrow>
          if \<not> result then (result, error_message)
          else pipeline_check policies phone)"

definition PhonePolicyPipeline :: "PhonePolicy \<Rightarrow> PhonePolicy list \<Rightarrow> PhonePolicy" where
  "PhonePolicyPipeline policy policies = pipeline_check (policy # policies)"

definition NonEmptyPhone :: PhonePolicy where
  "NonEmptyPhone phone =
     (if phone \<noteq> [] then (True, '''') else (False, ''empty phone number''))"

text \<open>
  \<^verbatim>\<open>str.isprintable\<close>: every character is printable, which holds of the empty string.
  Python counts a code point as non-printable when its Unicode category is Other or
  Separator, the ASCII space excepted. Among the code points 0 to 255 these are the
  controls 0 to 31 and 127 to 159, the no-break space 160 and the soft hyphen 173.
\<close>

definition char_isprintable :: "char \<Rightarrow> bool" where
  "char_isprintable c =
     (let n = (of_char c :: nat)
      in (32 \<le> n \<and> n \<le> 126) \<or> (161 \<le> n \<and> n \<noteq> 173))"

definition isprintable :: "string \<Rightarrow> bool" where
  "isprintable s = list_all char_isprintable s"

definition OnlyPrintablePhone :: PhonePolicy where
  "OnlyPrintablePhone phone =
     (if isprintable phone then (True, '''')
      else (False, ''non-printable characters in phone number''))"

definition PHONE_CHECK_POLICY :: PhonePolicy where
  "PHONE_CHECK_POLICY = PhonePolicyPipeline NonEmptyPhone [OnlyPrintablePhone]"

subsection \<open>Value objects\<close>

text \<open>
  Each class has one attribute, set by \<^verbatim>\<open>__init__\<close> after its check. The datatype is
  the object; the function named after the class is \<^verbatim>\<open>__init__\<close>, the only way the
  code builds one.
\<close>

datatype PhoneNumber_obj = PhoneNumber_obj (phone: string)

definition PhoneNumber :: "string \<Rightarrow> PhonePolicy \<Rightarrow> error + PhoneNumber_obj" where
  "PhoneNumber phone_str policy =
     (case policy phone_str of
        (valid_phone, error_message) \<Rightarrow>
          if \<not> valid_phone then Inl (WrongNumberFormat error_message)
          else Inr (PhoneNumber_obj phone_str))"

datatype CustomerID_obj = CustomerID_obj (cust_id: int)

definition CustomerID :: "int \<Rightarrow> error + CustomerID_obj" where
  "CustomerID customer_id =
     (if customer_id < 1 then Inl (WrongCustomerID customer_id)
      else Inr (CustomerID_obj customer_id))"

datatype LTV_obj = LTV_obj (ltv: int)

definition LTV :: "int \<Rightarrow> error + LTV_obj" where
  "LTV ltv_int =
     (if ltv_int < 0 then Inl (WrongLTV ltv_int) else Inr (LTV_obj ltv_int))"

subsection \<open>The connection wrapper\<close>

text \<open>
  The store client object that \<^verbatim>\<open>aerospike.client(config).connect()\<close> returns. All the
  wrapper asks of it is \<^verbatim>\<open>is_connected()\<close>; \<^verbatim>\<open>close()\<close> makes that answer False. A
  connection that has dropped is a handle whose \<open>is_connected\<close> is False.
\<close>

datatype aerospike_client = Aerospike_client (is_connected: bool)

definition aerospike_close :: "aerospike_client \<Rightarrow> aerospike_client" where
  "aerospike_close h = Aerospike_client False"

text \<open>
  The attributes \<^verbatim>\<open>_config\<close> (a dict) and \<^verbatim>\<open>_client\<close> (None until connected). The option
  values are of any type.
\<close>

record 'v Client =
  priv_config :: "string \<rightharpoonup> 'v"
  priv_client :: "aerospike_client option"

text \<open>\<^verbatim>\<open>__init__\<close>: \<^verbatim>\<open>config or {}\<close> is the given dict, or an empty one.\<close>

definition Client :: "(string \<rightharpoonup> 'v) \<Rightarrow> 'v Client" where
  "Client config = \<lparr>priv_config = config, priv_client = None\<rparr>"

text \<open>
  \<^verbatim>\<open>with_option\<close> raises before it writes, and returns \<^verbatim>\<open>self\<close>: the second component is
  the object after the call.
\<close>

definition with_option :: "string \<Rightarrow> 'v \<Rightarrow> 'v Client \<Rightarrow> (error + unit) \<times> 'v Client" where
  "with_option option value self =
     (if priv_config self option \<noteq> None then (Inl (ClientOptionExists option), self)
      else (Inr (), self\<lparr>priv_config := (priv_config self)(option \<mapsto> value)\<rparr>))"

text \<open>
  \<^verbatim>\<open>with_options\<close>: \<^verbatim>\<open>reduce\<close> calls \<^verbatim>\<open>self.with_option\<close> on each item of
  \<^verbatim>\<open>options.items()\<close> in turn, on the one object; an exception ends it, and the options
  written before it stay written.
\<close>

fun with_options :: "(string \<times> 'v) list \<Rightarrow> 'v Client \<Rightarrow> (error + unit) \<times> 'v Client" where
  "with_options [] self = (Inr (), self)"
| "with_options ((option, value) # items) self =
     (case with_option option value self of
        (Inl e, self') \<Rightarrow> (Inl e, self')
      | (Inr _, self') \<Rightarrow> with_options items self')"

definition is_available :: "'v Client \<Rightarrow> bool" where
  "is_available self = (priv_client self \<noteq> None)"

text \<open>
  \<^verbatim>\<open>self._client.is_connected()\<close>: an attribute access on None raises AttributeError.
\<close>

definition client_is_connected :: "'v Client \<Rightarrow> error + bool" where
  "client_is_connected self =
     (case priv_client self of
        None \<Rightarrow> Inl AttributeError
      | Some h \<Rightarrow> Inr (is_connected h))"

text \<open>
  \<^verbatim>\<open>self.is_available\<close>, written without the call parentheses in \<^verbatim>\<open>is_closed\<close> and
  \<^verbatim>\<open>close\<close>, is the bound method object, which is true whatever \<^verbatim>\<open>_client\<close> holds.
\<close>

definition is_available_method_truth :: "'v Client \<Rightarrow> bool" where
  "is_available_method_truth self = True"

definition is_closed :: "'v Client \<Rightarrow> error + bool" where
  "is_closed self =
     (if \<not> is_available self then Inl ClientHandlerUnavailable
      else if is_available_method_truth self then
        (case client_is_connected self of
           Inl e \<Rightarrow> Inl e
         | Inr connected \<Rightarrow> if connected then Inr False else Inr True)
      else Inr True)"

definition api_is_closed :: "'v Client \<Rightarrow> error + bool" where
  "api_is_closed self =
     (if \<not> is_available self then Inl AerospikeClientUnavailable
      else if is_available_method_truth self then
        (case client_is_connected self of
           Inl e \<Rightarrow> Inl e
         | Inr connected \<Rightarrow> if connected then Inr False else Inr True)
      else Inr True)"

definition close :: "'v Client \<Rightarrow> (error + unit) \<times> 'v Client" where
  "close self =
     (if is_available_method_truth self then
        (case client_is_connected self of
           Inl e \<Rightarrow> (Inl e, self)
         | Inr connected \<Rightarrow>
             if connected
             then (Inr (), self\<lparr>priv_client := map_option aerospike_close (priv_client self)\<rparr>)
             else (Inr (), self))
      else (Inr (), self))"

text \<open>The property \<^verbatim>\<open>handler\<close> of \<^verbatim>\<open>ltv_service.py\<close>.\<close>

definition handler :: "'v Client \<Rightarrow> error + aerospike_client" where
  "handler self =
     (case priv_client self of
        None \<Rightarrow> Inl ClientHandlerUnavailable
      | Some h \<Rightarrow> if is_connected h then Inr h else Inl ClientHandlerUnavailable)"

text \<open>
  The property \<^verbatim>\<open>handler\<close> of \<^verbatim>\<open>ltv_service_api.py\<close>, which asks \<^verbatim>\<open>is_closed\<close>. Where
  \<^verbatim>\<open>is_closed\<close> answers False, \<^verbatim>\<open>_client\<close> is not None.
\<close>

definition api_handler :: "'v Client \<Rightarrow> error + aerospike_client" where
  "api_handler self =
     (case api_is_closed self of
        Inl e \<Rightarrow> Inl e
      | Inr closed \<Rightarrow>
          if \<not> closed then
            (case priv_client self of
               Some h \<Rightarrow> Inr h
             | None \<Rightarrow> Inl AttributeError)
          else Inl AerospikeClientUnavailable)"

text \<open>
  \<^verbatim>\<open>connect\<close>. Whether the cluster answers is outside the program: \<open>reachable\<close> says
  whether \<^verbatim>\<open>aerospike.client(config).connect()\<close> succeeds, and when it does not, the
  store client's \<^verbatim>\<open>ClientError\<close> is caught and raised again as \<^verbatim>\<open>ClientConnectError\<close>.
  In \<^verbatim>\<open>ltv_service_api.py\<close> the exception raised for a dropped handle is the module's
  own, which the \<^verbatim>\<open>except\<close> clause does not catch.
\<close>

definition connect :: "bool \<Rightarrow> 'v Client \<Rightarrow> (error + unit) \<times> 'v Client" where
  "connect reachable self =
     (if reachable then (Inr (), self\<lparr>priv_client := Some (Aerospike_client True)\<rparr>)
      else (Inl ClientConnectError, self))"

definition api_connect :: "bool \<Rightarrow> 'v Client \<Rightarrow> (error + unit) \<times> 'v Client" where
  "api_connect reachable self =
     (if \<not> is_available self then
        (if reachable then (Inr (), self\<lparr>priv_client := Some (Aerospike_client True)\<rparr>)
         else (Inl ClientConnectError, self))
      else
        (case client_is_connected self of
           Inl e \<Rightarrow> (Inl e, self)
         | Inr connected \<Rightarrow>
             if connected then (Inr (), self)
             else (Inl AerospikeClientUnavailable, self)))"

subsection \<open>The store\<close>

text \<open>
  The key-value store is an external service, reached through the store client's
  \<^verbatim>\<open>put\<close>, \<^verbatim>\<open>select\<close> and \<^verbatim>\<open>query\<close>; none of it is code of this repository. Its model is
  kept apart from the embedding of the two files.

  A key is the triple (namespace, set, id). A record's bins are the two the code writes
  and reads, \<^verbatim>\<open>phone\<close> and \<^verbatim>\<open>ltv\<close>, each present or absent. The store does not type its
  bins: whatever wrote the record decides what a bin holds. A bin value is an integer
  or a string, the two kinds of value the code itself writes; the other kinds of value
  a bin may hold are left out.
\<close>

type_synonym key = "string \<times> string \<times> int"

datatype bin_value = Int_value int | Str_value string

record bins =
  phone_bin :: "bin_value option"
  ltv_bin :: "bin_value option"

text \<open>A predicate of a query: \<^verbatim>\<open>aerospike.predicates.equals(bin, value)\<close>.\<close>

datatype predicate = Equals string string

record query =
  q_namespace :: string
  q_set :: string
  q_select :: "string list"
  q_where :: "predicate option"

datatype store_call =
    Put key bins
  | Select key "string list"
  | Query_results query

text \<open>
  The state of the store: the records, in the order in which a query meets them, and
  the calls that have reached the store so far.
\<close>

record store =
  records :: "(key \<times> bins) list"
  calls :: "store_call list"

text \<open>The bins of a record that a list of bin names selects.\<close>

definition project :: "string list \<Rightarrow> bins \<Rightarrow> bins" where
  "project names b =
     \<lparr>phone_bin = (if ''phone'' \<in> set names then phone_bin b else None),
      ltv_bin = (if ''ltv'' \<in> set names then ltv_bin b else None)\<rparr>"

definition matches :: "predicate option \<Rightarrow> bins \<Rightarrow> bool" where
  "matches p b =
     (case p of
        None \<Rightarrow> True
      | Some (Equals name v) \<Rightarrow> name = ''phone'' \<and> phone_bin b = Some (Str_value v))"

text \<open>
  Modelled from the spec: the store client's \<^verbatim>\<open>put(key, fields)\<close>, an upsert that
  writes a record with the given fields, overwriting any record at that key.
\<close>

definition handler_put :: "aerospike_client \<Rightarrow> key \<Rightarrow> bins \<Rightarrow> store \<Rightarrow> (error + unit) \<times> store" where
  "handler_put h k b s =
     (Inr (), s\<lparr>records := AList.update k b (records s), calls := calls s @ [Put k b]\<rparr>)"

text \<open>
  Modelled from the spec: the store client's \<^verbatim>\<open>select(key, field-list)\<close>, a point read
  that returns the triple (key, metadata, bins) with the selected bins, and raises
  \<^verbatim>\<open>RecordNotFound\<close> when the store has no such key.
\<close>

definition handler_select ::
  "aerospike_client \<Rightarrow> key \<Rightarrow> string list \<Rightarrow> store \<Rightarrow> (error + key \<times> unit \<times> bins) \<times> store" where
  "handler_select h k names s =
     (let s' = s\<lparr>calls := calls s @ [Select k names]\<rparr>
      in case map_of (records s) k of
           None \<Rightarrow> (Inl RecordNotFound, s')
         | Some b \<Rightarrow> (Inr (k, (), project names b), s'))"

text \<open>
  Modelled from the spec: the store client's
  \<^verbatim>\<open>query(namespace, collection).where(equality-predicate).select(field-list)\<close>. Building
  the query does not reach the store; \<^verbatim>\<open>results()\<close> does, and returns the records of
  the namespace and set that satisfy the predicate, each as (key, metadata, bins).
\<close>

definition handler_query :: "aerospike_client \<Rightarrow> string \<Rightarrow> string \<Rightarrow> query" where
  "handler_query h namespace set_name =
     \<lparr>q_namespace = namespace, q_set = set_name, q_select = [], q_where = None\<rparr>"

definition query_select :: "string \<Rightarrow> query \<Rightarrow> query" where
  "query_select name q = q\<lparr>q_select := q_select q @ [name]\<rparr>"

definition query_where :: "predicate \<Rightarrow> query \<Rightarrow> query" where
  "query_where p q = q\<lparr>q_where := Some p\<rparr>"

definition in_scope :: "query \<Rightarrow> key \<times> bins \<Rightarrow> bool" where
  "in_scope q r =
     (case r of
        ((namespace, set_name, _), b) \<Rightarrow>
          namespace = q_namespace q \<and> set_name = q_set q \<and> matches (q_where q) b)"

definition query_results :: "query \<Rightarrow> store \<Rightarrow> (key \<times> unit \<times> bins) list \<times> store" where
  "query_results q s =
     (map (\<lambda>(k, b). (k, (), project (q_select q) b)) (filter (in_scope q) (records s)),
      s\<lparr>calls := calls s @ [Query_results q]\<rparr>)"

subsection \<open>Record access\<close>

text \<open>
  \<^verbatim>\<open>NAMESPACE\<close> and \<^verbatim>\<open>SET\<close> are read from the environment when the module is loaded
  (defaults \<^verbatim>\<open>test\<close> and \<^verbatim>\<open>customers\<close>); the public functions take them in a record.
\<close>

record settings =
  NAMESPACE :: string
  SET :: string

definition default_settings :: settings where
  "default_settings = \<lparr>NAMESPACE = ''test'', SET = ''customers''\<rparr>"

text \<open>\<^verbatim>\<open>_add_customer\<close> of \<^verbatim>\<open>ltv_service.py\<close>, which returns None.\<close>

definition priv_add_customer ::
  "'v Client \<Rightarrow> string \<Rightarrow> string \<Rightarrow> CustomerID_obj \<Rightarrow> PhoneNumber_obj \<Rightarrow> LTV_obj \<Rightarrow> store
     \<Rightarrow> (error + unit) \<times> store" where
  "priv_add_customer client namespace set_name customer_id phone_number lifetime_value s =
     (let k = (namespace, set_name, cust_id customer_id);
          b = \<lparr>phone_bin = Some (Str_value (phone phone_number)),
               ltv_bin = Some (Int_value (ltv lifetime_value))\<rparr>
      in case handler client of
           Inl e \<Rightarrow> (Inl e, s)
         | Inr h \<Rightarrow> handler_put h k b s)"

text \<open>\<^verbatim>\<open>_add_customer\<close> of \<^verbatim>\<open>ltv_service_api.py\<close>, which returns the CustomerID.\<close>

definition api_priv_add_customer ::
  "'v Client \<Rightarrow> string \<Rightarrow> string \<Rightarrow> CustomerID_obj \<Rightarrow> PhoneNumber_obj \<Rightarrow> LTV_obj \<Rightarrow> store
     \<Rightarrow> (error + CustomerID_obj) \<times> store" where
  "api_priv_add_customer client namespace set_name customer_id phone_number lifetime_value s =
     (let k = (namespace, set_name, cust_id customer_id);
          b = \<lparr>phone_bin = Some (Str_value (phone phone_number)),
               ltv_bin = Some (Int_value (ltv lifetime_value))\<rparr>
      in case api_handler client of
           Inl e \<Rightarrow> (Inl e, s)
         | Inr h \<Rightarrow>
             (case handler_put h k b s of
                (Inl e, s') \<Rightarrow> (Inl e, s')
              | (Inr _, s') \<Rightarrow> (Inr customer_id, s')))"

text \<open>
  \<^verbatim>\<open>LTV(ltv)\<close> on a value as the store hands it over. \<^verbatim>\<open>__init__\<close> compares \<^verbatim>\<open>ltv < 0\<close>
  without looking at the type: on an integer this is \<open>LTV\<close>, on a string the comparison
  raises TypeError.
\<close>

definition LTV_of_value :: "bin_value \<Rightarrow> error + LTV_obj" where
  "LTV_of_value x =
     (case x of
        Int_value ltv_int \<Rightarrow> LTV ltv_int
      | Str_value _ \<Rightarrow> Inl TypeError)"

text \<open>
  What both \<^verbatim>\<open>_get_ltv_by_id\<close> and \<^verbatim>\<open>_get_ltv_by_phone\<close> do with the bins of a record:
  None when \<^verbatim>\<open>bins.get("ltv")\<close> is None, otherwise \<^verbatim>\<open>LTV(ltv)\<close> with \<^verbatim>\<open>WrongLTV\<close> caught
  and turned into None. No \<^verbatim>\<open>except\<close> clause catches another exception of \<^verbatim>\<open>LTV(ltv)\<close>.
\<close>

definition ltv_of_bins :: "bins \<Rightarrow> error + LTV_obj option" where
  "ltv_of_bins b =
     (case ltv_bin b of
        None \<Rightarrow> Inr None
      | Some x \<Rightarrow>
          (case LTV_of_value x of
             Inl (WrongLTV _) \<Rightarrow> Inr None
           | Inl e \<Rightarrow> Inl e
           | Inr v \<Rightarrow> Inr (Some v)))"

text \<open>
  \<^verbatim>\<open>_get_ltv_by_id\<close>. The \<^verbatim>\<open>try\<close> catches \<^verbatim>\<open>RecordNotFound\<close> and \<^verbatim>\<open>WrongLTV\<close>; the
  exception of \<^verbatim>\<open>client.handler\<close> is neither and leaves the function.
\<close>

definition priv_get_ltv_by_id ::
  "'v Client \<Rightarrow> string \<Rightarrow> string \<Rightarrow> CustomerID_obj \<Rightarrow> store
     \<Rightarrow> (error + LTV_obj option) \<times> store" where
  "priv_get_ltv_by_id client namespace set_name customer_id s =
     (let k = (namespace, set_name, cust_id customer_id)
      in case handler client of
           Inl e \<Rightarrow> (Inl e, s)
         | Inr h \<Rightarrow>
             (case handler_select h k [''ltv''] s of
                (Inl RecordNotFound, s') \<Rightarrow> (Inr None, s')
              | (Inl e, s') \<Rightarrow> (Inl e, s')
              | (Inr (_, _, b), s') \<Rightarrow> (ltv_of_bins b, s')))"

definition api_priv_get_ltv_by_id ::
  "'v Client \<Rightarrow> string \<Rightarrow> string \<Rightarrow> CustomerID_obj \<Rightarrow> store
     \<Rightarrow> (error + LTV_obj option) \<times> store" where
  "api_priv_get_ltv_by_id client namespace set_name customer_id s =
     (let k = (namespace, set_name, cust_id customer_id)
      in case api_handler client of
           Inl e \<Rightarrow> (Inl e, s)
         | Inr h \<Rightarrow>
             (case handler_select h k [''ltv''] s of
                (Inl RecordNotFound, s') \<Rightarrow> (Inr None, s')
              | (Inl e, s') \<Rightarrow> (Inl e, s')
              | (Inr (_, _, b), s') \<Rightarrow> (ltv_of_bins b, s')))"

text \<open>\<^verbatim>\<open>_get_ltv_by_phone\<close>: the first result of the query, when there is one.\<close>

definition priv_get_ltv_by_phone ::
  "'v Client \<Rightarrow> string \<Rightarrow> string \<Rightarrow> PhoneNumber_obj \<Rightarrow> store
     \<Rightarrow> (error + LTV_obj option) \<times> store" where
  "priv_get_ltv_by_phone client namespace set_name phone_number s =
     (case handler client of
        Inl e \<Rightarrow> (Inl e, s)
      | Inr h \<Rightarrow>
          (let q = handler_query h namespace set_name;
               q = query_select ''ltv'' q;
               q = query_where (Equals ''phone'' (phone phone_number)) q
           in case query_results q s of
                ([], s') \<Rightarrow> (Inr None, s')
              | ((_, _, b) # _, s') \<Rightarrow> (ltv_of_bins b, s')))"

definition api_priv_get_ltv_by_phone ::
  "'v Client \<Rightarrow> string \<Rightarrow> string \<Rightarrow> PhoneNumber_obj \<Rightarrow> store
     \<Rightarrow> (error + LTV_obj option) \<times> store" where
  "api_priv_get_ltv_by_phone client namespace set_name phone_number s =
     (case api_handler client of
        Inl e \<Rightarrow> (Inl e, s)
      | Inr h \<Rightarrow>
          (let q = handler_query h namespace set_name;
               q = query_select ''ltv'' q;
               q = query_where (Equals ''phone'' (phone phone_number)) q
           in case query_results q s of
                ([], s') \<Rightarrow> (Inr None, s')
              | ((_, _, b) # _, s') \<Rightarrow> (ltv_of_bins b, s')))"

subsection \<open>The public functions\<close>

definition add_customer ::
  "settings \<Rightarrow> 'v Client \<Rightarrow> int \<Rightarrow> string \<Rightarrow> int \<Rightarrow> store \<Rightarrow> (error + unit) \<times> store" where
  "add_customer env client customer_id phone_number lifetime_value s =
     (case PhoneNumber phone_number PHONE_CHECK_POLICY of
        Inl e \<Rightarrow> (Inl e, s)
      | Inr phone_obj \<Rightarrow>
          (case CustomerID customer_id of
             Inl e \<Rightarrow> (Inl e, s)
           | Inr id_obj \<Rightarrow>
               (case LTV lifetime_value of
                  Inl e \<Rightarrow> (Inl e, s)
                | Inr ltv_obj \<Rightarrow>
                    priv_add_customer client (NAMESPACE env) (SET env) id_obj phone_obj ltv_obj s)))"

text \<open>
  \<^verbatim>\<open>add_customer\<close> of \<^verbatim>\<open>ltv_service_api.py\<close> returns the id that \<^verbatim>\<open>_add_customer\<close> hands
  back, after asserting that it is the id given.
\<close>

definition api_add_customer ::
  "settings \<Rightarrow> 'v Client \<Rightarrow> int \<Rightarrow> string \<Rightarrow> int \<Rightarrow> store \<Rightarrow> (error + int) \<times> store" where
  "api_add_customer env client customer_id phone_number lifetime_value s =
     (case PhoneNumber phone_number PHONE_CHECK_POLICY of
        Inl e \<Rightarrow> (Inl e, s)
      | Inr phone_obj \<Rightarrow>
          (case CustomerID customer_id of
             Inl e \<Rightarrow> (Inl e, s)
           | Inr id_obj \<Rightarrow>
               (case LTV lifetime_value of
                  Inl e \<Rightarrow> (Inl e, s)
                | Inr ltv_obj \<Rightarrow>
                    (case api_priv_add_customer client (NAMESPACE env) (SET env)
                            id_obj phone_obj ltv_obj s of
                       (Inl e, s') \<Rightarrow> (Inl e, s')
                     | (Inr r, s') \<Rightarrow>
                         (let result = cust_id r
                          in if result = customer_id then (Inr result, s')
                             else (Inl AssertionError, s'))))))"

text \<open>The last line of both reads: \<^verbatim>\<open>ltv.ltv if ltv is not None else None\<close>.\<close>

definition get_ltv_by_id ::
  "settings \<Rightarrow> 'v Client \<Rightarrow> int \<Rightarrow> store \<Rightarrow> (error + int option) \<times> store" where
  "get_ltv_by_id env client customer_id s =
     (case CustomerID customer_id of
        Inl e \<Rightarrow> (Inl e, s)
      | Inr id_obj \<Rightarrow>
          (case priv_get_ltv_by_id client (NAMESPACE env) (SET env) id_obj s of
             (Inl e, s') \<Rightarrow> (Inl e, s')
           | (Inr r, s') \<Rightarrow> (Inr (map_option ltv r), s')))"

definition api_get_ltv_by_id ::
  "settings \<Rightarrow> 'v Client \<Rightarrow> int \<Rightarrow> store \<Rightarrow> (error + int option) \<times> store" where
  "api_get_ltv_by_id env client customer_id s =
     (case CustomerID customer_id of
        Inl e \<Rightarrow> (Inl e, s)
      | Inr id_obj \<Rightarrow>
          (case api_priv_get_ltv_by_id client (NAMESPACE env) (SET env) id_obj s of
             (Inl e, s') \<Rightarrow> (Inl e, s')
           | (Inr r, s') \<Rightarrow> (Inr (map_option ltv r), s')))"

definition get_ltv_by_phone ::
  "settings \<Rightarrow> 'v Client \<Rightarrow> string \<Rightarrow> store \<Rightarrow> (error + int option) \<times> store" where
  "get_ltv_by_phone env client phone_number s =
     (case PhoneNumber phone_number PHONE_CHECK_POLICY of
        Inl e \<Rightarrow> (Inl e, s)
      | Inr phone_obj \<Rightarrow>
          (case priv_get_ltv_by_phone client (NAMESPACE env) (SET env) phone_obj s of
             (Inl e, s') \<Rightarrow> (Inl e, s')
           | (Inr r, s') \<Rightarrow> (Inr (map_option ltv r), s')))"

definition api_get_ltv_by_phone ::
  "settings \<Rightarrow> 'v Client \<Rightarrow> string \<Rightarrow> store \<Rightarrow> (error + int option) \<times> store" where
  "api_get_ltv_by_phone env client phone_number s =
     (case PhoneNumber phone_number PHONE_CHECK_POLICY of
        Inl e \<Rightarrow> (Inl e, s)
      | Inr phone_obj \<Rightarrow>
          (case api_priv_get_ltv_by_phone client (NAMESPACE env) (SET env) phone_obj s of
             (Inl e, s') \<Rightarrow> (Inl e, s')
           | (Inr r, s') \<Rightarrow> (Inr (map_option ltv r), s')))"

subsection \<open>Notions used to state the properties\<close>

text \<open>
  A record that \<^verbatim>\<open>_get_ltv_by_phone\<close> can find for the phone \<open>p\<close>: it lies in the
  configured namespace and set and its \<^verbatim>\<open>phone\<close> bin is \<open>p\<close>.
\<close>

definition has_phone :: "settings \<Rightarrow> string \<Rightarrow> key \<times> bins \<Rightarrow> bool" where
  "has_phone env p r =
     (case r of
        ((namespace, set_name, _), b) \<Rightarrow>
          namespace = NAMESPACE env \<and> set_name = SET env \<and> phone_bin b = Some (Str_value p))"

text \<open>
  What a read makes of the \<^verbatim>\<open>ltv\<close> bin of the record it has found: None for an absent
  bin and for a negative integer, the integer when it is not negative, TypeError for a
  string.
\<close>

definition read_ltv :: "bin_value option \<Rightarrow> error + int option" where
  "read_ltv x =
     (case x of
        None \<Rightarrow> Inr None
      | Some (Int_value v) \<Rightarrow> Inr (if v < 0 then None else Some v)
      | Some (Str_value _) \<Rightarrow> Inl TypeError)"

text \<open>The query that \<^verbatim>\<open>_get_ltv_by_phone\<close> has built when it asks for the results.\<close>

definition phone_query :: "string \<Rightarrow> string \<Rightarrow> string \<Rightarrow> query" where
  "phone_query namespace set_name p =
     \<lparr>q_namespace = namespace, q_set = set_name, q_select = [''ltv''],
      q_where = Some (Equals ''phone'' p)\<rparr>"

text \<open>
  The exception class that \<^verbatim>\<open>ltv_service_api.py\<close> has in the place of each class of
  \<^verbatim>\<open>ltv_service.py\<close>: the same name, except that \<^verbatim>\<open>ClientHandlerUnavailable\<close> (line 22)
  is \<^verbatim>\<open>AerospikeClientUnavailable\<close> there.
\<close>

definition api_error :: "error \<Rightarrow> error" where
  "api_error e = (if e = ClientHandlerUnavailable then AerospikeClientUnavailable else e)"

subsection \<open>Example states\<close>

definition never_connected :: "nat Client" where
  "never_connected = Client Map.empty"

definition connected_client :: "nat Client" where
  "connected_client = snd (connect True (Client Map.empty))"

definition closed_client :: "nat Client" where
  "closed_client = snd (close connected_client)"

definition empty_store :: store where
  "empty_store = \<lparr>records = [], calls = []\<rparr>"

text \<open>
  A store with a record that has no \<^verbatim>\<open>ltv\<close> bin, one whose \<^verbatim>\<open>ltv\<close> is negative and one
  that is well formed.
\<close>

definition example_store :: store where
  "example_store =
     \<lparr>records =
        [((''test'', ''customers'', 1),
          \<lparr>phone_bin = Some (Str_value ''555-0001''), ltv_bin = None\<rparr>),
         ((''test'', ''customers'', 2),
          \<lparr>phone_bin = Some (Str_value ''555-0002''), ltv_bin = Some (Int_value (- 5))\<rparr>),
         ((''test'', ''customers'', 3),
          \<lparr>phone_bin = Some (Str_value ''555-0003''), ltv_bin = Some (Int_value 500)\<rparr>)],
      calls = []\<rparr>"


section \<open>Properties\<close>

subsection \<open>Phone policies and value objects\<close>

lemma pipeline_first_failure:
  "\<not> fst (p s) \<Longrightarrow> PhonePolicyPipeline p ps s = p s"
  by (cases "p s") (simp add: PhonePolicyPipeline_def)

lemma PHONE_CHECK_POLICY_eq:
  "PHONE_CHECK_POLICY s =
     (if s = [] then (False, ''empty phone number'')
      else if isprintable s then (True, '''')
      else (False, ''non-printable characters in phone number''))"
  by (simp add: PHONE_CHECK_POLICY_def PhonePolicyPipeline_def NonEmptyPhone_def
      OnlyPrintablePhone_def)

lemma PhoneNumber_valid:
  "s \<noteq> [] \<Longrightarrow> isprintable s \<Longrightarrow> PhoneNumber s PHONE_CHECK_POLICY = Inr (PhoneNumber_obj s)"
  by (simp add: PhoneNumber_def PHONE_CHECK_POLICY_eq)

text \<open>
  C3. Under the default policy, constructing a PhoneNumber from a non-empty string of
  printable characters succeeds and keeps the string; the empty string raises
  WrongNumberFormat with the reason "empty phone number"; a non-empty string with a
  non-printable character raises WrongNumberFormat with the reason "non-printable
  characters in phone number". The non-empty check runs first: on the empty string a
  pipeline that starts with it reports its reason whatever policy \<open>q\<close> comes second.
\<close>

theorem PhoneNumber_default_policy:
  "(s \<noteq> [] \<and> (\<forall>c \<in> set s. char_isprintable c) \<longrightarrow>
      (\<exists>obj. PhoneNumber s PHONE_CHECK_POLICY = Inr obj \<and> phone obj = s)) \<and>
   PhoneNumber [] PHONE_CHECK_POLICY = Inl (WrongNumberFormat ''empty phone number'') \<and>
   (s \<noteq> [] \<and> (\<exists>c \<in> set s. \<not> char_isprintable c) \<longrightarrow>
      PhoneNumber s PHONE_CHECK_POLICY =
        Inl (WrongNumberFormat ''non-printable characters in phone number'')) \<and>
   PhonePolicyPipeline NonEmptyPhone [q] [] = (False, ''empty phone number'')"
  by (auto simp add: PhoneNumber_def PHONE_CHECK_POLICY_eq isprintable_def list_all_iff
      pipeline_first_failure NonEmptyPhone_def)

theorem PhoneNumber_default_policy_witness:
  "(\<exists>obj. PhoneNumber ''555-0100'' PHONE_CHECK_POLICY = Inr obj \<and> phone obj = ''555-0100'') \<and>
   PhoneNumber [] PHONE_CHECK_POLICY = Inl (WrongNumberFormat ''empty phone number'') \<and>
   PhoneNumber [CHR ''5'', CHR 0x0A] PHONE_CHECK_POLICY =
     Inl (WrongNumberFormat ''non-printable characters in phone number'') \<and>
   PhonePolicyPipeline NonEmptyPhone [\<lambda>_. (False, ''other'')] [] = (False, ''empty phone number'')"
  using PhoneNumber_default_policy [of "''555-0100''" "\<lambda>_. (False, ''other'')"]
    PhoneNumber_default_policy [of "[CHR ''5'', CHR 0x0A]"]
  by (simp add: char_isprintable_def)

text \<open>
  C5. For every integer \<open>n \<ge> 1\<close>, CustomerID(n) is constructed and its id is \<open>n\<close>; for
  every integer \<open>n \<le> 0\<close> the construction raises WrongCustomerID.
\<close>

theorem CustomerID_range:
  "(1 \<le> n \<longrightarrow> (\<exists>obj. CustomerID n = Inr obj \<and> cust_id obj = n)) \<and>
   (n \<le> 0 \<longrightarrow> CustomerID n = Inl (WrongCustomerID n))"
  by (simp add: CustomerID_def)

theorem CustomerID_range_witness:
  "(\<exists>obj. CustomerID 42 = Inr obj \<and> cust_id obj = 42) \<and>
   CustomerID 0 = Inl (WrongCustomerID 0) \<and> CustomerID (- 7) = Inl (WrongCustomerID (- 7))"
  using CustomerID_range [of 42] CustomerID_range [of 0] CustomerID_range [of "- 7"]
  by simp

text \<open>
  C6. For every integer \<open>n \<ge> 0\<close>, LTV(n) is constructed and its value is \<open>n\<close>; for every
  integer \<open>n < 0\<close> the construction raises WrongLTV.
\<close>

theorem LTV_range:
  "(0 \<le> n \<longrightarrow> (\<exists>obj. LTV n = Inr obj \<and> ltv obj = n)) \<and>
   (n < 0 \<longrightarrow> LTV n = Inl (WrongLTV n))"
  by (simp add: LTV_def)

theorem LTV_range_witness:
  "(\<exists>obj. LTV 0 = Inr obj \<and> ltv obj = 0) \<and> (\<exists>obj. LTV 1000 = Inr obj \<and> ltv obj = 1000) \<and>
   LTV (- 1) = Inl (WrongLTV (- 1))"
  using LTV_range [of 0] LTV_range [of 1000] LTV_range [of "- 1"]
  by simp

subsection \<open>The connection wrapper\<close>

lemma with_options_duplicate:
  "\<exists>k \<in> set (map fst kvs). priv_config c k \<noteq> None \<Longrightarrow>
   \<exists>k \<in> set (map fst kvs). fst (with_options kvs c) = Inl (ClientOptionExists k)"
proof (induction kvs arbitrary: c)
  case Nil
  then show ?case by simp
next
  case (Cons kv kvs)
  obtain k v where kv: "kv = (k, v)" by (cases kv)
  show ?case
  proof (cases "priv_config c k = None")
    case False
    then show ?thesis by (simp add: kv with_option_def)
  next
    case True
    let ?c' = "c\<lparr>priv_config := (priv_config c)(k \<mapsto> v)\<rparr>"
    from Cons.prems True kv obtain k' where "k' \<in> set (map fst kvs)" "priv_config c k' \<noteq> None"
      by auto
    then have "\<exists>k \<in> set (map fst kvs). priv_config ?c' k \<noteq> None"
      by auto
    from Cons.IH [OF this] True show ?thesis
      by (auto simp add: kv with_option_def)
  qed
qed

text \<open>
  The items of a dict have distinct keys. Then \<^verbatim>\<open>with_options\<close> raises for the first of
  them that the configuration already holds, and succeeds when there is none.
\<close>

lemma with_options_first:
  "distinct (map fst kvs) \<Longrightarrow>
   fst (with_options kvs c) =
     (case find (\<lambda>k. priv_config c k \<noteq> None) (map fst kvs) of
        None \<Rightarrow> Inr ()
      | Some k \<Rightarrow> Inl (ClientOptionExists k))"
proof (induction kvs arbitrary: c)
  case Nil
  then show ?case by simp
next
  case (Cons kv kvs)
  obtain k v where kv: "kv = (k, v)" by (cases kv)
  show ?case
  proof (cases "priv_config c k = None")
    case False
    then show ?thesis by (simp add: kv with_option_def)
  next
    case True
    let ?c' = "c\<lparr>priv_config := (priv_config c)(k \<mapsto> v)\<rparr>"
    from Cons.prems kv have d: "distinct (map fst kvs)" and nk: "k \<notin> set (map fst kvs)"
      by auto
    have "find (\<lambda>k. priv_config ?c' k \<noteq> None) (map fst kvs) =
          find (\<lambda>k. priv_config c k \<noteq> None) (map fst kvs)"
      using nk by (intro find_cong) auto
    with Cons.IH [OF d, of ?c'] True show ?thesis
      by (simp add: kv with_option_def)
  qed
qed

text \<open>
  C7. \<^verbatim>\<open>with_option(key, value)\<close> raises ClientOptionExists when the key is already in
  the configuration, and otherwise adds the pair and returns the client; so
  \<^verbatim>\<open>with_options\<close> over items one of whose keys is already in the configuration raises
  ClientOptionExists.
\<close>

theorem with_option_duplicate:
  "(priv_config c k \<noteq> None \<longrightarrow> with_option k v c = (Inl (ClientOptionExists k), c)) \<and>
   (priv_config c k = None \<longrightarrow>
      with_option k v c = (Inr (), c\<lparr>priv_config := (priv_config c)(k \<mapsto> v)\<rparr>)) \<and>
   ((\<exists>k' \<in> set (map fst kvs). priv_config c k' \<noteq> None) \<longrightarrow>
      (\<exists>k' \<in> set (map fst kvs). fst (with_options kvs c) = Inl (ClientOptionExists k')))"
  using with_options_duplicate [of kvs c] by (simp add: with_option_def)

theorem with_option_duplicate_witness:
  "with_option ''hosts'' (1::nat) (Client [''hosts'' \<mapsto> 0]) =
     (Inl (ClientOptionExists ''hosts''), Client [''hosts'' \<mapsto> 0]) \<and>
   with_option ''policies'' (1::nat) (Client [''hosts'' \<mapsto> 0]) =
     (Inr (),
      (Client [''hosts'' \<mapsto> 0])\<lparr>priv_config := [''hosts'' \<mapsto> 0, ''policies'' \<mapsto> 1]\<rparr>) \<and>
   (\<exists>k' \<in> set (map fst [(''policies'', 1), (''hosts'', 2)]).
      fst (with_options [(''policies'', 1), (''hosts'', 2)] (Client [''hosts'' \<mapsto> (0::nat)])) =
        Inl (ClientOptionExists k'))"
  using with_option_duplicate
      [of "Client [''hosts'' \<mapsto> (0::nat)]" "''hosts''" 1 "[(''policies'', 1), (''hosts'', 2)]"]
    with_option_duplicate [of "Client [''hosts'' \<mapsto> (0::nat)]" "''policies''" 1 "[]"]
  by (simp add: Client_def)

text \<open>
  With a store client object in \<^verbatim>\<open>_client\<close>, connected or not, \<^verbatim>\<open>close\<close> does not raise,
  and a second \<^verbatim>\<open>close\<close> changes nothing.
\<close>

lemma close_with_handle:
  "priv_client c = Some h \<Longrightarrow>
   fst (close c) = Inr () \<and> fst (close (snd (close c))) = Inr () \<and>
   snd (close (snd (close c))) = snd (close c)"
  by (auto simp add: close_def is_available_method_truth_def client_is_connected_def
      aerospike_close_def)

text \<open>
  C8. Calling \<^verbatim>\<open>close\<close> never raises, whether the client was never connected, is
  connected or is already closed. The code breaks this for a client that was never
  connected: \<^verbatim>\<open>self.is_available\<close> is not called, so the guard is true and
  \<^verbatim>\<open>self._client.is_connected()\<close> is evaluated on None, which raises AttributeError.
\<close>

theorem close_never_connected_raises:
  "close (Client config) = (Inl AttributeError, Client config)"
  by (simp add: close_def Client_def is_available_method_truth_def client_is_connected_def)

subsection \<open>Record access with an available handler\<close>

lemma handler_connected:
  "priv_client c = Some h \<Longrightarrow> is_connected h \<Longrightarrow> handler c = Inr h"
  by (simp add: handler_def)

lemma handler_unavailable:
  "priv_client c = None \<or> (\<exists>h. priv_client c = Some h \<and> \<not> is_connected h) \<Longrightarrow>
   handler c = Inl ClientHandlerUnavailable"
  by (auto simp add: handler_def)

lemma handler_cases:
  "handler c = Inl ClientHandlerUnavailable \<or> (\<exists>h. handler c = Inr h)"
  by (simp add: handler_def split: option.splits)

text \<open>The two \<^verbatim>\<open>handler\<close> properties differ in the class of the exception only.\<close>

lemma api_handler_eq:
  "api_handler c =
     (case handler c of Inl e \<Rightarrow> Inl AerospikeClientUnavailable | Inr h \<Rightarrow> Inr h)"
  by (simp add: api_handler_def handler_def api_is_closed_def is_available_def
      is_available_method_truth_def client_is_connected_def split: option.splits)

lemma ltv_of_bins_eq:
  "ltv_of_bins b = map_sum id (map_option LTV_obj) (read_ltv (ltv_bin b))"
  by (simp add: ltv_of_bins_def LTV_of_value_def LTV_def read_ltv_def
      split: option.splits bin_value.splits)

lemma read_ltv_not_unavailable:
  "read_ltv x \<noteq> Inl ClientHandlerUnavailable"
  by (simp add: read_ltv_def split: option.splits bin_value.splits)

lemma priv_get_ltv_by_id_available:
  "handler c = Inr h \<Longrightarrow>
   priv_get_ltv_by_id c ns st cid s =
     (case map_of (records s) (ns, st, cust_id cid) of
        None \<Rightarrow> Inr None
      | Some b \<Rightarrow> map_sum id (map_option LTV_obj) (read_ltv (ltv_bin b)),
      s\<lparr>calls := calls s @ [Select (ns, st, cust_id cid) [''ltv'']]\<rparr>)"
  by (simp add: priv_get_ltv_by_id_def handler_select_def ltv_of_bins_eq project_def Let_def
      split: option.splits)

lemma filter_head_find:
  "(case filter P xs of [] \<Rightarrow> None | x # _ \<Rightarrow> Some x) = find P xs"
  by (induction xs) auto

lemma in_scope_phone_query:
  "in_scope (phone_query (NAMESPACE env) (SET env) p) = has_phone env p"
  by (auto simp add: fun_eq_iff in_scope_def has_phone_def phone_query_def matches_def)

lemma query_results_phone_query:
  "query_results (phone_query (NAMESPACE env) (SET env) p) s =
     (map (\<lambda>(k, b). (k, (), \<lparr>phone_bin = None, ltv_bin = ltv_bin b\<rparr>))
        (filter (has_phone env p) (records s)),
      s\<lparr>calls := calls s @ [Query_results (phone_query (NAMESPACE env) (SET env) p)]\<rparr>)"
proof -
  have "q_select (phone_query (NAMESPACE env) (SET env) p) = [''ltv'']"
    by (simp add: phone_query_def)
  then show ?thesis
    by (simp add: query_results_def in_scope_phone_query project_def)
qed

lemma priv_get_ltv_by_phone_available:
  assumes h: "handler c = Inr h"
  shows "priv_get_ltv_by_phone c (NAMESPACE env) (SET env) ph s =
     (case find (has_phone env (phone ph)) (records s) of
        None \<Rightarrow> Inr None
      | Some (k, b) \<Rightarrow> map_sum id (map_option LTV_obj) (read_ltv (ltv_bin b)),
      s\<lparr>calls := calls s @ [Query_results (phone_query (NAMESPACE env) (SET env) (phone ph))]\<rparr>)"
proof -
  let ?q = "phone_query (NAMESPACE env) (SET env) (phone ph)"
  have q: "query_where (Equals ''phone'' (phone ph))
             (query_select ''ltv'' (handler_query h (NAMESPACE env) (SET env))) = ?q"
    by (simp add: query_where_def query_select_def handler_query_def phone_query_def)
  show ?thesis
  proof (cases "filter (has_phone env (phone ph)) (records s)")
    case Nil
    then have "find (has_phone env (phone ph)) (records s) = None"
      using filter_head_find [of "has_phone env (phone ph)" "records s"] by simp
    with Nil h show ?thesis
      by (simp add: priv_get_ltv_by_phone_def q query_results_phone_query)
  next
    case (Cons r rs)
    then have "find (has_phone env (phone ph)) (records s) = Some r"
      using filter_head_find [of "has_phone env (phone ph)" "records s"] by simp
    with Cons h show ?thesis
      by (cases r) (simp add: priv_get_ltv_by_phone_def q query_results_phone_query
          ltv_of_bins_eq)
  qed
qed

lemma map_option_ltv_LTV_obj:
  "map_option ltv (map_option LTV_obj x) = x"
  by (cases x) simp_all

lemma get_ltv_by_id_available:
  "handler c = Inr h \<Longrightarrow> 1 \<le> i \<Longrightarrow>
   fst (get_ltv_by_id env c i s) =
     (case map_of (records s) (NAMESPACE env, SET env, i) of
        None \<Rightarrow> Inr None
      | Some b \<Rightarrow> read_ltv (ltv_bin b))"
  by (cases "map_of (records s) (NAMESPACE env, SET env, i)";
      cases "read_ltv (ltv_bin (the (map_of (records s) (NAMESPACE env, SET env, i))))")
    (simp_all add: get_ltv_by_id_def CustomerID_def priv_get_ltv_by_id_available
      map_option_ltv_LTV_obj)

lemma get_ltv_by_phone_available:
  "handler c = Inr h \<Longrightarrow> p \<noteq> [] \<Longrightarrow> isprintable p \<Longrightarrow>
   fst (get_ltv_by_phone env c p s) =
     (case find (has_phone env p) (records s) of
        None \<Rightarrow> Inr None
      | Some (k, b) \<Rightarrow> read_ltv (ltv_bin b))"
  by (cases "find (has_phone env p) (records s)";
      cases "read_ltv (ltv_bin (snd (the (find (has_phone env p) (records s)))))")
    (auto simp add: get_ltv_by_phone_def PhoneNumber_valid priv_get_ltv_by_phone_available
      map_option_ltv_LTV_obj)

lemma add_customer_available:
  "handler c = Inr h \<Longrightarrow> 1 \<le> i \<Longrightarrow> p \<noteq> [] \<Longrightarrow> isprintable p \<Longrightarrow> 0 \<le> v \<Longrightarrow>
   add_customer env c i p v s =
     (Inr (),
      s\<lparr>records :=
           AList.update (NAMESPACE env, SET env, i)
             \<lparr>phone_bin = Some (Str_value p), ltv_bin = Some (Int_value v)\<rparr> (records s),
         calls :=
           calls s @
           [Put (NAMESPACE env, SET env, i)
              \<lparr>phone_bin = Some (Str_value p), ltv_bin = Some (Int_value v)\<rparr>]\<rparr>)"
  by (simp add: add_customer_def PhoneNumber_valid CustomerID_def LTV_def priv_add_customer_def
      handler_put_def Let_def)

lemma connected_client_handle:
  "priv_client connected_client = Some (Aerospike_client True)"
  by (simp add: connected_client_def connect_def Client_def)

lemma closed_client_handle:
  "priv_client closed_client = Some (Aerospike_client False)"
  by (simp add: closed_client_def connected_client_def connect_def Client_def close_def
      is_available_method_truth_def client_is_connected_def aerospike_close_def)

text \<open>
  C1. For a connected client, a customer id \<open>i \<ge> 1\<close>, a valid phone string \<open>p\<close> and an
  integer \<open>v \<ge> 0\<close>, \<^verbatim>\<open>add_customer(conn, i, p, v)\<close> succeeds and \<^verbatim>\<open>get_ltv_by_id(conn, i)\<close>
  on the store it leaves returns \<open>v\<close>, not None.
\<close>

theorem add_then_get_by_id:
  assumes "priv_client c = Some h" and "is_connected h"
    and "1 \<le> i" and "p \<noteq> []" and "\<forall>ch \<in> set p. char_isprintable ch" and "0 \<le> v"
  shows "fst (add_customer env c i p v s) = Inr () \<and>
         fst (get_ltv_by_id env c i (snd (add_customer env c i p v s))) = Inr (Some v)"
proof -
  from assms have h: "handler c = Inr h" and pr: "isprintable p"
    by (simp_all add: handler_connected isprintable_def list_all_iff)
  note add = add_customer_available [OF h \<open>1 \<le> i\<close> \<open>p \<noteq> []\<close> pr \<open>0 \<le> v\<close>, of env s]
  show ?thesis
    using \<open>0 \<le> v\<close>
    by (simp add: add get_ltv_by_id_available [OF h \<open>1 \<le> i\<close>] update_conv' read_ltv_def)
qed

theorem add_then_get_by_id_witness:
  "fst (add_customer default_settings connected_client 42 ''555-0100'' 1000 empty_store) = Inr () \<and>
   fst (get_ltv_by_id default_settings connected_client 42
          (snd (add_customer default_settings connected_client 42 ''555-0100'' 1000 empty_store))) =
     Inr (Some 1000)"
  using add_then_get_by_id [of connected_client "Aerospike_client True" 42 "''555-0100''" 1000
      default_settings empty_store]
  by (simp add: connected_client_handle char_isprintable_def)

subsection \<open>Reads against any store state\<close>

lemma get_ltv_by_id_invalid:
  "i < 1 \<Longrightarrow> get_ltv_by_id env c i s = (Inl (WrongCustomerID i), s)"
  by (simp add: get_ltv_by_id_def CustomerID_def)

lemma get_ltv_by_phone_invalid:
  "p = [] \<or> \<not> isprintable p \<Longrightarrow>
   \<exists>m. get_ltv_by_phone env c p s = (Inl (WrongNumberFormat m), s)"
  by (auto simp add: get_ltv_by_phone_def PhoneNumber_def PHONE_CHECK_POLICY_eq)

lemma get_ltv_by_id_no_handler:
  "handler c = Inl e \<Longrightarrow> 1 \<le> i \<Longrightarrow> get_ltv_by_id env c i s = (Inl e, s)"
  by (simp add: get_ltv_by_id_def CustomerID_def priv_get_ltv_by_id_def)

lemma get_ltv_by_phone_no_handler:
  "handler c = Inl e \<Longrightarrow> p \<noteq> [] \<Longrightarrow> isprintable p \<Longrightarrow>
   get_ltv_by_phone env c p s = (Inl e, s)"
  by (simp add: get_ltv_by_phone_def PhoneNumber_valid priv_get_ltv_by_phone_def)

lemma add_customer_no_handler:
  "handler c = Inl e \<Longrightarrow> 1 \<le> i \<Longrightarrow> p \<noteq> [] \<Longrightarrow> isprintable p \<Longrightarrow> 0 \<le> v \<Longrightarrow>
   add_customer env c i p v s = (Inl e, s)"
  by (simp add: add_customer_def PhoneNumber_valid CustomerID_def LTV_def priv_add_customer_def
      Let_def)




text \<open>
  C10. Whatever the client, the store state and the input, an integer that
  \<^verbatim>\<open>get_ltv_by_id\<close> or \<^verbatim>\<open>get_ltv_by_phone\<close> returns is non-negative: the stored value has
  gone through \<^verbatim>\<open>LTV\<close> again, and a negative one comes back as None.
\<close>

theorem reads_return_nonnegative:
  "(fst (get_ltv_by_id env c i s) = Inr (Some n) \<longrightarrow> 0 \<le> n) \<and>
   (fst (get_ltv_by_phone env c p s) = Inr (Some n) \<longrightarrow> 0 \<le> n)"
proof -
  from handler_cases [of c] show ?thesis
  proof
    assume u: "handler c = Inl ClientHandlerUnavailable"
    have "fst (get_ltv_by_id env c i s) \<noteq> Inr (Some n)"
      using get_ltv_by_id_invalid [of i env c s] get_ltv_by_id_no_handler [OF u, of i env s]
      by (cases "i < 1") simp_all
    moreover have "fst (get_ltv_by_phone env c p s) \<noteq> Inr (Some n)"
      using get_ltv_by_phone_invalid [of p env c s] get_ltv_by_phone_no_handler [OF u, of p env s]
      by (cases "p = [] \<or> \<not> isprintable p") auto
    ultimately show ?thesis by simp
  next
    assume "\<exists>h. handler c = Inr h"
    then obtain h where h: "handler c = Inr h" ..
    have "fst (get_ltv_by_id env c i s) = Inr (Some n) \<longrightarrow> 0 \<le> n"
      using get_ltv_by_id_invalid [of i env c s] get_ltv_by_id_available [OF h, of i env s]
      by (cases "i < 1")
        (auto simp add: read_ltv_def split: option.splits bin_value.splits if_splits)
    moreover have "fst (get_ltv_by_phone env c p s) = Inr (Some n) \<longrightarrow> 0 \<le> n"
      using get_ltv_by_phone_invalid [of p env c s] get_ltv_by_phone_available [OF h, of p env s]
      by (cases "p = [] \<or> \<not> isprintable p")
        (auto simp add: read_ltv_def split: option.splits bin_value.splits if_splits)
    ultimately show ?thesis by simp
  qed
qed

theorem reads_return_nonnegative_witness:
  "fst (get_ltv_by_id default_settings connected_client 3 example_store) = Inr (Some 500) \<and>
   fst (get_ltv_by_phone default_settings connected_client ''555-0003'' example_store) =
     Inr (Some 500) \<and> (0::int) \<le> 500"
  using reads_return_nonnegative [of default_settings connected_client 3 example_store 500
      "''555-0003''"]
    get_ltv_by_id_available [of connected_client "Aerospike_client True" 3 default_settings
      example_store]
    get_ltv_by_phone_available [of connected_client "Aerospike_client True" "''555-0003''"
      default_settings example_store]
  by (simp add: handler_connected connected_client_handle example_store_def default_settings_def
      has_phone_def isprintable_def char_isprintable_def read_ltv_def)

subsection \<open>The two files compared\<close>

lemma api_handler_available: "handler c = Inr h \<Longrightarrow> api_handler c = Inr h"
  by (simp add: api_handler_eq)

lemma api_handler_unavailable:
  "handler c = Inl e \<Longrightarrow> api_handler c = Inl AerospikeClientUnavailable"
  by (simp add: api_handler_eq)

lemma map_sum_api_error:
  "x \<noteq> Inl ClientHandlerUnavailable \<Longrightarrow> map_sum api_error f x = map_sum id f x"
  by (cases x) (simp_all add: api_error_def)

lemma api_priv_get_ltv_by_id_eq:
  "api_priv_get_ltv_by_id c ns st cid s =
     map_prod (map_sum api_error id) id (priv_get_ltv_by_id c ns st cid s)"
proof -
  from handler_cases [of c] show ?thesis
  proof
    assume u: "handler c = Inl ClientHandlerUnavailable"
    then show ?thesis
      by (simp add: api_priv_get_ltv_by_id_def priv_get_ltv_by_id_def
          api_handler_unavailable [OF u] api_error_def)
  next
    assume "\<exists>h. handler c = Inr h"
    then obtain h where h: "handler c = Inr h" ..
    have "api_priv_get_ltv_by_id c ns st cid s = priv_get_ltv_by_id c ns st cid s"
      by (simp add: api_priv_get_ltv_by_id_def priv_get_ltv_by_id_def h
          api_handler_available [OF h])
    then show ?thesis
      using read_ltv_not_unavailable
      by (simp add: priv_get_ltv_by_id_available [OF h] map_sum_api_error sum.map_comp
          sum.map_id split: option.splits)
  qed
qed

lemma api_priv_get_ltv_by_phone_eq:
  "api_priv_get_ltv_by_phone c (NAMESPACE (env :: settings)) (SET env) ph s =
     map_prod (map_sum api_error id) id (priv_get_ltv_by_phone c (NAMESPACE env) (SET env) ph s)"
proof -
  from handler_cases [of c] show ?thesis
  proof
    assume u: "handler c = Inl ClientHandlerUnavailable"
    then show ?thesis
      by (simp add: api_priv_get_ltv_by_phone_def priv_get_ltv_by_phone_def
          api_handler_unavailable [OF u] api_error_def)
  next
    assume "\<exists>h. handler c = Inr h"
    then obtain h where h: "handler c = Inr h" ..
    have "api_priv_get_ltv_by_phone c (NAMESPACE env) (SET env) ph s =
          priv_get_ltv_by_phone c (NAMESPACE env) (SET env) ph s"
      by (simp add: api_priv_get_ltv_by_phone_def priv_get_ltv_by_phone_def h
          api_handler_available [OF h])
    then show ?thesis
      using read_ltv_not_unavailable
      by (simp add: priv_get_ltv_by_phone_available [OF h] map_sum_api_error sum.map_comp
          sum.map_id split: option.splits prod.splits)
  qed
qed

lemma api_priv_add_customer_eq:
  "api_priv_add_customer c ns st cid ph l s =
     map_prod (map_sum api_error (\<lambda>_. cid)) id (priv_add_customer c ns st cid ph l s)"
proof -
  from handler_cases [of c] show ?thesis
  proof
    assume u: "handler c = Inl ClientHandlerUnavailable"
    then show ?thesis
      by (simp add: api_priv_add_customer_def priv_add_customer_def
          api_handler_unavailable [OF u] api_error_def Let_def)
  next
    assume "\<exists>h. handler c = Inr h"
    then obtain h where h: "handler c = Inr h" ..
    then show ?thesis
      by (simp add: api_priv_add_customer_def priv_add_customer_def
          api_handler_available [OF h] handler_put_def Let_def)
  qed
qed

lemma api_get_ltv_by_id_eq:
  "api_get_ltv_by_id env c i s =
     map_prod (map_sum api_error id) id (get_ltv_by_id env c i s)"
  by (cases "priv_get_ltv_by_id c (NAMESPACE env) (SET env) (CustomerID_obj i) s";
      cases "fst (priv_get_ltv_by_id c (NAMESPACE env) (SET env) (CustomerID_obj i) s)")
    (simp_all add: api_get_ltv_by_id_def get_ltv_by_id_def api_priv_get_ltv_by_id_eq
      CustomerID_def api_error_def)

lemma api_get_ltv_by_phone_eq:
  "api_get_ltv_by_phone env c p s =
     map_prod (map_sum api_error id) id (get_ltv_by_phone env c p s)"
  by (cases "priv_get_ltv_by_phone c (NAMESPACE env) (SET env) (PhoneNumber_obj p) s";
      cases "fst (priv_get_ltv_by_phone c (NAMESPACE env) (SET env) (PhoneNumber_obj p) s)";
      cases "PHONE_CHECK_POLICY p")
    (simp_all add: api_get_ltv_by_phone_def get_ltv_by_phone_def api_priv_get_ltv_by_phone_eq
      PhoneNumber_def api_error_def)

text \<open>
  The assertion of \<^verbatim>\<open>add_customer\<close> in \<^verbatim>\<open>ltv_service_api.py\<close> never fails: the id that
  comes back is the one given.
\<close>

lemma api_add_customer_eq:
  "api_add_customer env c i p v s =
     map_prod (map_sum api_error (\<lambda>_. i)) id (add_customer env c i p v s)"
  by (cases "priv_add_customer c (NAMESPACE env) (SET env) (CustomerID_obj i)
               (PhoneNumber_obj p) (LTV_obj v) s";
      cases "fst (priv_add_customer c (NAMESPACE env) (SET env) (CustomerID_obj i)
               (PhoneNumber_obj p) (LTV_obj v) s)";
      cases "PHONE_CHECK_POLICY p")
    (simp_all add: api_add_customer_def add_customer_def api_priv_add_customer_eq
      PhoneNumber_def CustomerID_def LTV_def api_error_def)

text \<open>
  C9. For a client whose store connection is absent (never connected) or has dropped,
  and inputs that pass validation, \<^verbatim>\<open>add_customer\<close>, \<^verbatim>\<open>get_ltv_by_id\<close> and
  \<^verbatim>\<open>get_ltv_by_phone\<close> raise the handler-unavailable exception of their file
  (ClientHandlerUnavailable, AerospikeClientUnavailable) before any call reaches the
  store: the store state, with its record of calls, is as it was.
\<close>

theorem unavailable_handler_fails_first:
  assumes "priv_client c = None \<or> (\<exists>h. priv_client c = Some h \<and> \<not> is_connected h)"
    and "1 \<le> i" and "p \<noteq> []" and "\<forall>ch \<in> set p. char_isprintable ch" and "0 \<le> v"
  shows "add_customer env c i p v s = (Inl ClientHandlerUnavailable, s) \<and>
         get_ltv_by_id env c i s = (Inl ClientHandlerUnavailable, s) \<and>
         get_ltv_by_phone env c p s = (Inl ClientHandlerUnavailable, s) \<and>
         api_add_customer env c i p v s = (Inl AerospikeClientUnavailable, s) \<and>
         api_get_ltv_by_id env c i s = (Inl AerospikeClientUnavailable, s) \<and>
         api_get_ltv_by_phone env c p s = (Inl AerospikeClientUnavailable, s)"
proof -
  from assms(1) have u: "handler c = Inl ClientHandlerUnavailable"
    by (rule handler_unavailable)
  from assms(4) have pr: "isprintable p"
    by (simp add: isprintable_def list_all_iff)
  have a: "add_customer env c i p v s = (Inl ClientHandlerUnavailable, s)"
    using u assms(2,3) pr assms(5) by (rule add_customer_no_handler)
  have g: "get_ltv_by_id env c i s = (Inl ClientHandlerUnavailable, s)"
    using u assms(2) by (rule get_ltv_by_id_no_handler)
  have q: "get_ltv_by_phone env c p s = (Inl ClientHandlerUnavailable, s)"
    using u assms(3) pr by (rule get_ltv_by_phone_no_handler)
  show ?thesis
    by (simp add: a g q api_add_customer_eq api_get_ltv_by_id_eq api_get_ltv_by_phone_eq
        api_error_def)
qed

theorem unavailable_handler_fails_first_witness:
  "add_customer default_settings never_connected 42 ''555-0100'' 1000 example_store =
     (Inl ClientHandlerUnavailable, example_store) \<and>
   get_ltv_by_id default_settings closed_client 3 example_store =
     (Inl ClientHandlerUnavailable, example_store) \<and>
   get_ltv_by_phone default_settings closed_client ''555-0003'' example_store =
     (Inl ClientHandlerUnavailable, example_store) \<and>
   api_add_customer default_settings closed_client 42 ''555-0100'' 1000 example_store =
     (Inl AerospikeClientUnavailable, example_store) \<and>
   api_get_ltv_by_id default_settings never_connected 3 example_store =
     (Inl AerospikeClientUnavailable, example_store) \<and>
   api_get_ltv_by_phone default_settings never_connected ''555-0003'' example_store =
     (Inl AerospikeClientUnavailable, example_store)"
  using
    unavailable_handler_fails_first [of never_connected 42 "''555-0100''" 1000
      default_settings example_store]
    unavailable_handler_fails_first [of never_connected 3 "''555-0003''" 0
      default_settings example_store]
    unavailable_handler_fails_first [of closed_client 42 "''555-0100''" 1000
      default_settings example_store]
    unavailable_handler_fails_first [of closed_client 3 "''555-0003''" 0
      default_settings example_store]
  by (simp add: never_connected_def Client_def closed_client_handle char_isprintable_def)

text \<open>
  C4 as the spec states it: for every client, store state and input the reads of the two
  files return the same result. For a client that was never connected they do not:
  \<^verbatim>\<open>get_ltv_by_id\<close> raises ClientHandlerUnavailable in \<^verbatim>\<open>ltv_service.py\<close> and
  AerospikeClientUnavailable in \<^verbatim>\<open>ltv_service_api.py\<close>.
\<close>

theorem variants_differ_without_handler:
  "fst (get_ltv_by_id default_settings never_connected 42 empty_store) =
     Inl ClientHandlerUnavailable \<and>
   fst (api_get_ltv_by_id default_settings never_connected 42 empty_store) =
     Inl AerospikeClientUnavailable \<and>
   get_ltv_by_id default_settings never_connected 42 empty_store \<noteq>
     api_get_ltv_by_id default_settings never_connected 42 empty_store"
  by (simp add: get_ltv_by_id_def api_get_ltv_by_id_def CustomerID_def priv_get_ltv_by_id_def
      api_priv_get_ltv_by_id_def handler_def api_handler_def api_is_closed_def is_available_def
      never_connected_def Client_def)

text \<open>
  C4, amended. For every client, store state and input, \<^verbatim>\<open>get_ltv_by_id\<close> and
  \<^verbatim>\<open>get_ltv_by_phone\<close> of \<^verbatim>\<open>ltv_service_api.py\<close> give what the same-named functions of
  \<^verbatim>\<open>ltv_service.py\<close> give and leave the store in the same state, and \<^verbatim>\<open>add_customer\<close>
  performs the same store write, up to two differences: \<^verbatim>\<open>add_customer\<close> returns the
  written id in the one and nothing in the other, and where \<^verbatim>\<open>ltv_service.py\<close> raises
  ClientHandlerUnavailable, \<^verbatim>\<open>ltv_service_api.py\<close> raises AerospikeClientUnavailable.
  For a connected client only the first difference is left.
\<close>

theorem variants_agree_up_to_handler_error:
  "api_get_ltv_by_id env c i s =
     map_prod (map_sum api_error id) id (get_ltv_by_id env c i s) \<and>
   api_get_ltv_by_phone env c p s =
     map_prod (map_sum api_error id) id (get_ltv_by_phone env c p s) \<and>
   api_add_customer env c i p v s =
     map_prod (map_sum api_error (\<lambda>_. i)) id (add_customer env c i p v s) \<and>
   ((\<exists>h. priv_client c = Some h \<and> is_connected h) \<longrightarrow>
      api_get_ltv_by_id env c i s = get_ltv_by_id env c i s \<and>
      api_get_ltv_by_phone env c p s = get_ltv_by_phone env c p s \<and>
      snd (api_add_customer env c i p v s) = snd (add_customer env c i p v s) \<and>
      fst (api_add_customer env c i p v s) =
        map_sum id (\<lambda>_. i) (fst (add_customer env c i p v s)))"
proof -
  have conn: "api_get_ltv_by_id env c i s = get_ltv_by_id env c i s \<and>
      api_get_ltv_by_phone env c p s = get_ltv_by_phone env c p s \<and>
      snd (api_add_customer env c i p v s) = snd (add_customer env c i p v s) \<and>
      fst (api_add_customer env c i p v s) =
        map_sum id (\<lambda>_. i) (fst (add_customer env c i p v s))"
    if "priv_client c = Some h" and "is_connected h" for h
  proof -
    from that have h: "handler c = Inr h" by (rule handler_connected)
    have 1: "fst (get_ltv_by_id env c i s) \<noteq> Inl ClientHandlerUnavailable"
      using get_ltv_by_id_invalid [of i env c s] get_ltv_by_id_available [OF h, of i env s]
        read_ltv_not_unavailable
      by (cases "i < 1") (auto split: option.splits)
    have 2: "fst (get_ltv_by_phone env c p s) \<noteq> Inl ClientHandlerUnavailable"
      using get_ltv_by_phone_invalid [of p env c s] get_ltv_by_phone_available [OF h, of p env s]
        read_ltv_not_unavailable
      by (cases "p = [] \<or> \<not> isprintable p") (auto split: option.splits)
    have 3: "fst (add_customer env c i p v s) \<noteq> Inl ClientHandlerUnavailable"
      by (simp add: add_customer_def PhoneNumber_def CustomerID_def LTV_def
          priv_add_customer_def h handler_put_def Let_def split: prod.splits)
    show ?thesis
      using 1 2 3
      by (simp add: api_get_ltv_by_id_eq api_get_ltv_by_phone_eq api_add_customer_eq
          prod_eq_iff map_sum_api_error sum.map_id)
  qed
  show ?thesis
    using conn
    by (auto simp add: api_get_ltv_by_id_eq api_get_ltv_by_phone_eq api_add_customer_eq
        simp del: map_prod_simp)
qed

theorem variants_agree_up_to_handler_error_witness:
  "api_get_ltv_by_id default_settings connected_client 3 example_store =
     get_ltv_by_id default_settings connected_client 3 example_store \<and>
   api_get_ltv_by_phone default_settings connected_client ''555-0003'' example_store =
     get_ltv_by_phone default_settings connected_client ''555-0003'' example_store \<and>
   snd (api_add_customer default_settings connected_client 3 ''555-0003'' 700 example_store) =
     snd (add_customer default_settings connected_client 3 ''555-0003'' 700 example_store) \<and>
   fst (api_add_customer default_settings connected_client 3 ''555-0003'' 700 example_store) =
     map_sum id (\<lambda>_. 3)
       (fst (add_customer default_settings connected_client 3 ''555-0003'' 700 example_store)) \<and>
   api_get_ltv_by_id default_settings never_connected 3 example_store =
     map_prod (map_sum api_error id) id
       (get_ltv_by_id default_settings never_connected 3 example_store)"
proof -
  have "\<exists>h. priv_client connected_client = Some h \<and> is_connected h"
    by (simp add: connected_client_handle)
  with variants_agree_up_to_handler_error [of default_settings connected_client 3 example_store
      "''555-0003''" 700]
    variants_agree_up_to_handler_error [of default_settings never_connected 3 example_store
      "''555-0003''" 700]
  show ?thesis
    by blast
qed

end
